theory Spec2Isabelle
  imports Complex_Main "HOL-Library.Sublist" "HOL-Library.Word"
begin

section \<open>Outcomes of Go code: values, errors, panics and process exit\<close>

text \<open>
  Go functions of the repository return \<open>(value, error)\<close> pairs, may panic (index or
  slice out of range, nil dereference, write to a nil map) and may end the whole process
  through \<open>log.Fatal\<close>.  All three are values of the model: a computation yields
  \<open>Inr v\<close> or \<open>Inl f\<close> for a fault \<open>f\<close>.

  The error values keep the place that produced them, and a wrapping
  \<open>fmt.Errorf(\"...: %v\", err)\<close> keeps the error it wraps.
\<close>

datatype err =
    errExistingCursor
  | NumError string                       \<comment> \<open>strconv.Atoi failed on this text\<close>
  | ErrParseSQLIDWords nat                \<comment> \<open>parseSQLID: too few words\<close>
  | ErrParseOtherAttrWords nat            \<comment> \<open>parseOtherAttr: too few words\<close>
  | ErrParseOtherAttr string err          \<comment> \<open>parseOtherAttr: can't parse length/depth/...\<close>
  | ErrParsingInCursorID string err       \<comment> \<open>parsingInCursor: CursorID conversion\<close>
  | ErrParseRecordParsing err             \<comment> \<open>parseRecord: error from calling parsingInCursor\<close>
  | ErrCompareAndSetOpen err              \<comment> \<open>compareAndSet: error from calling open\<close>
  | ErrParseExecWords nat                 \<comment> \<open>parseExec: too few words\<close>
  | ErrParseExecCursor string err         \<comment> \<open>parseExec: cursor# not a number\<close>
  | ErrSetViolations string string        \<comment> \<open>setViolations: business tx not found\<close>
  | ErrUnknownRecordType
  | ErrOutputType string                  \<comment> \<open>output: outputtype is neither varz nor pubsub\<close>
  | ErrDumpEnqueue err                    \<comment> \<open>sink.Dump for PubSub: error in calling Enqueue\<close>
  | ErrNotExist string                    \<comment> \<open>the file does not exist (\<open>os.IsNotExist\<close>)\<close>
  | ErrIO string                          \<comment> \<open>any other error of the operating system\<close>
  | ErrCSV string                         \<comment> \<open>an error of encoding/csv\<close>
  | ErrJSON string                        \<comment> \<open>an error of encoding/json\<close>
  | ErrPublish string                     \<comment> \<open>an error of the emission backend\<close>

datatype fault =
    Error err        \<comment> \<open>a non-nil \<open>error\<close> result\<close>
  | Panic            \<comment> \<open>a run-time panic\<close>
  | Fatal err        \<comment> \<open>\<open>log.Fatal(err)\<close>: the process exits with status 1\<close>

type_synonym 'a result = "fault + 'a"

definition bindr :: "'a result \<Rightarrow> ('a \<Rightarrow> 'b result) \<Rightarrow> 'b result" where
  "bindr m f = (case m of Inl e \<Rightarrow> Inl e | Inr v \<Rightarrow> f v)"

section \<open>Strings\<close>

text \<open>
  A Go string is a byte sequence: \<open>string\<close>.  All separators the code splits on are
  ASCII, so splitting by bytes and splitting by runes agree.
\<close>

abbreviation LF :: char where "LF \<equiv> CHR 0x0A"
abbreviation CR :: char where "CR \<equiv> CHR 0x0D"

text \<open>\<open>strings.FieldsFunc\<close>: the maximal runs of bytes that do not satisfy \<open>f\<close>.\<close>

fun fieldsAux :: "(char \<Rightarrow> bool) \<Rightarrow> string \<Rightarrow> string \<Rightarrow> string list" where
  "fieldsAux f cur [] = (if cur = [] then [] else [cur])"
| "fieldsAux f cur (c # cs) =
     (if f c then (if cur = [] then fieldsAux f [] cs else cur # fieldsAux f [] cs)
      else fieldsAux f (cur @ [c]) cs)"

definition FieldsFunc :: "string \<Rightarrow> (char \<Rightarrow> bool) \<Rightarrow> string list" where
  "FieldsFunc s f = fieldsAux f [] s"

text \<open>
  \<open>strings.Fields\<close> splits around white space.  The ASCII white space of Go is modelled
  (tab, LF, VT, FF, CR, space); the white space beyond ASCII is not.
\<close>

definition asciiSpace :: "char \<Rightarrow> bool" where
  "asciiSpace c = (c \<in> set [CHR 0x09, CHR 0x0A, CHR 0x0B, CHR 0x0C, CHR 0x0D, CHR '' ''])"

definition Fields :: "string \<Rightarrow> string list" where
  "Fields s = FieldsFunc s asciiSpace"

text \<open>\<open>strings.HasPrefix\<close> and \<open>strings.Contains\<close>.\<close>

definition HasPrefix :: "string \<Rightarrow> string \<Rightarrow> bool" where
  "HasPrefix s p = prefix p s"

definition Contains :: "string \<Rightarrow> string \<Rightarrow> bool" where
  "Contains s sub = sublist sub s"

text \<open>\<open>strings.Replace(s, old, \"\", n)\<close> for a one-byte \<open>old\<close>: the first \<open>n\<close>
  occurrences are removed.\<close>

fun removeFirst :: "nat \<Rightarrow> char \<Rightarrow> string \<Rightarrow> string" where
  "removeFirst 0 q s = s"
| "removeFirst (Suc n) q [] = []"
| "removeFirst (Suc n) q (c # cs) =
     (if c = q then removeFirst n q cs else c # removeFirst (Suc n) q cs)"

text \<open>The slice expression \<open>s[n:]\<close> panics when \<open>n\<close> exceeds the length.\<close>

definition sliceFrom :: "string \<Rightarrow> nat \<Rightarrow> string result" where
  "sliceFrom s n = (if n \<le> length s then Inr (drop n s) else Inl Panic)"


subsection \<open>strconv.Atoi\<close>

text \<open>
  \<open>strconv.Atoi\<close> on a 64-bit platform: an optional sign, then one or more decimal
  digits, and the value must fit in a signed 64-bit integer.  Everything else is a
  \<open>*NumError\<close>.
\<close>

definition isDigit :: "char \<Rightarrow> bool" where
  "isDigit c = (48 \<le> (of_char c :: nat) \<and> (of_char c :: nat) \<le> 57)"

definition digitsVal :: "string \<Rightarrow> int" where
  "digitsVal ds = foldl (\<lambda>a c. 10 * a + (int (of_char c) - 48)) 0 ds"

definition Atoi :: "string \<Rightarrow> err + int" where
  "Atoi s =
     (let neg = (s \<noteq> [] \<and> hd s = CHR ''-'');
          ds = (if s \<noteq> [] \<and> (hd s = CHR ''-'' \<or> hd s = CHR ''+'') then tl s else s);
          v = (if neg then - digitsVal ds else digitsVal ds)
      in if ds = [] \<or> \<not> list_all isDigit ds then Inl (NumError s)
         else if v < - (2 ^ 63) \<or> 2 ^ 63 - 1 < v then Inl (NumError s)
         else Inr v)"

section \<open>Package cursor\<close>

record Cursor =
  CursorID :: int
  SQLID :: string
  BusinessTxName :: string
  ELAThreshold :: int
  hashValue :: string
  length_c :: int
  depth :: int
  uID :: int
  lID :: int
  oct :: int

definition NewCursor ::
  "int \<Rightarrow> string \<Rightarrow> string \<Rightarrow> int \<Rightarrow> string \<Rightarrow> int \<Rightarrow> int \<Rightarrow> int \<Rightarrow> int \<Rightarrow> int \<Rightarrow> Cursor" where
  "NewCursor cursorID sqlid businessTxName elaThreshold hv len dep uid lid oc =
     \<lparr>CursorID = cursorID, SQLID = sqlid, BusinessTxName = businessTxName,
      ELAThreshold = elaThreshold, hashValue = hv, length_c = len, depth = dep,
      uID = uid, lID = lid, oct = oc\<rparr>"

section \<open>Package sink: the cursor tracker\<close>

text \<open>
  \<open>CursorTrackerProtected.Cursors\<close> is a Go map from cursor number to cursor.  The
  methods take the tracker and return the updated one.
\<close>

type_synonym CursorTracker = "int \<rightharpoonup> Cursor"

definition get :: "CursorTracker \<Rightarrow> int \<Rightarrow> Cursor option" where
  "get c key = c key"

definition hasValue :: "CursorTracker \<Rightarrow> int \<Rightarrow> bool" where
  "hasValue c key = (c key \<noteq> None)"

definition set_c :: "CursorTracker \<Rightarrow> int \<Rightarrow> Cursor \<Rightarrow> CursorTracker" where
  "set_c c key v = c(key \<mapsto> v)"

definition delete :: "CursorTracker \<Rightarrow> int \<Rightarrow> CursorTracker" where
  "delete c key = c(key := None)"

text \<open>
  \<open>compareAndSet\<close> takes the write lock first and releases it, deferred, when it
  returns; \<open>open\<close> is called in between, and only when the key is absent.  The model
  returns, with the result and the tracker, the events of the call in their order.
  The closure \<open>open\<close> takes no argument, so it is given as a function of unit
  (\<open>openf\<close>).  A panic inside \<open>open\<close> passes through, the deferred unlock still runs.
\<close>

datatype event = EvLock | EvUnlock | EvOpen

definition compareAndSet ::
  "CursorTracker \<Rightarrow> int \<Rightarrow> (unit \<Rightarrow> Cursor result) \<Rightarrow> Cursor result \<times> CursorTracker \<times> event list" where
  "compareAndSet c key openf =
     (if c key \<noteq> None then (Inl (Error errExistingCursor), c, [EvLock, EvUnlock])
      else case openf () of
             Inl (Error e) \<Rightarrow> (Inl (Error (ErrCompareAndSetOpen e)), c, [EvLock, EvOpen, EvUnlock])
           | Inl f \<Rightarrow> (Inl f, c, [EvLock, EvOpen, EvUnlock])
           | Inr cur \<Rightarrow> (Inr cur, c(key \<mapsto> cur), [EvLock, EvOpen, EvUnlock]))"

section \<open>Package sink: the watch list and the trace parser\<close>

text \<open>
  \<open>float64\<close> values are modelled by exact rationals: \<open>float64(n)\<close> is \<open>of_int n\<close> and
  the division by 1000 is exact.  \<open>NumViolations\<close> is a wrapping 64-bit counter.
\<close>

type_synonym float64 = rat

record MonitoredSQL =
  BusinessTxName_m :: string
  ELAThreshold_m :: int
  SQLID_m :: "string list"
  LastELA :: float64
  WorstELA :: float64
  NumViolations :: "64 word"

record parsedSummary =
  isViolation :: bool
  businessTxName :: string
  threshold :: float64
  sqlID :: string
  worstELA :: float64
  lastELA :: float64
  numViolations :: "64 word"

text \<open>The zero value \<open>&parsedSummary{}\<close>.\<close>

definition emptySummary :: parsedSummary where
  "emptySummary = \<lparr>isViolation = False, businessTxName = [], threshold = 0, sqlID = [],
                    worstELA = 0, lastELA = 0, numViolations = 0\<rparr>"

datatype traceRecordKind =
    traceRecordTypeInvalid
  | traceRecordTypeParsingInCursor
  | traceRecordTypeParseExecFetch

definition traceRecordType :: "string \<Rightarrow> traceRecordKind" where
  "traceRecordType rec =
     (if HasPrefix rec ''PARSING IN CURSOR'' \<and> Contains rec ''sqlid''
        then traceRecordTypeParsingInCursor
      else if HasPrefix rec ''PARSE #'' \<or> HasPrefix rec ''EXEC #'' \<or> HasPrefix rec ''FETCH #''
        then traceRecordTypeParseExecFetch
      else traceRecordTypeInvalid)"

text \<open>\<open>parseSQLID\<close>: the SQL id and the cursor number text of a PARSING IN CURSOR record.\<close>

definition parseSQLID :: "string \<Rightarrow> (string \<times> string) result" where
  "parseSQLID rec =
     (let words = Fields rec in
      if length words \<le> 12 then Inl (Error (ErrParseSQLIDWords (length words)))
      else bindr (sliceFrom (words ! 12) 7) (\<lambda>w12.
           bindr (sliceFrom (words ! 3) 1) (\<lambda>w3.
           Inr (removeFirst 2 (CHR 0x27) w12, w3))))"

record parsedOtherAttr =
  hashValue_a :: string
  length_a :: int
  depth_a :: int
  uID_a :: int
  lID_a :: int
  oct_a :: int

text \<open>One field of \<open>parseOtherAttr\<close>: \<open>strconv.Atoi(words[i][4:])\<close> with its error wrapped.\<close>

definition attrField :: "string list \<Rightarrow> nat \<Rightarrow> string \<Rightarrow> int result" where
  "attrField words i name =
     bindr (sliceFrom (words ! i) 4) (\<lambda>w.
       case Atoi w of Inl e \<Rightarrow> Inl (Error (ErrParseOtherAttr name e)) | Inr v \<Rightarrow> Inr v)"

definition parseOtherAttr :: "string \<Rightarrow> parsedOtherAttr result" where
  "parseOtherAttr rec =
     (let words = Fields rec in
      if length words \<le> 10 then Inl (Error (ErrParseOtherAttrWords (length words)))
      else bindr (attrField words 4 ''length'') (\<lambda>len.
           bindr (attrField words 5 ''depth'') (\<lambda>dep.
           bindr (attrField words 6 ''uID'') (\<lambda>uid.
           bindr (attrField words 7 ''oct'') (\<lambda>oc.
           bindr (attrField words 8 ''lID'') (\<lambda>lid.
           bindr (sliceFrom (words ! 10) 3) (\<lambda>hv.
           Inr \<lparr>hashValue_a = hv, length_a = len, depth_a = dep,
                uID_a = uid, lID_a = lid, oct_a = oc\<rparr>)))))))"

definition openCursor :: "string \<Rightarrow> int \<Rightarrow> string \<Rightarrow> string \<Rightarrow> int \<Rightarrow> Cursor result" where
  "openCursor rec getCursorID getSQLID busTxName elaThreshold =
     bindr (parseOtherAttr rec) (\<lambda>otherAttr.
       Inr (NewCursor getCursorID getSQLID busTxName elaThreshold
              (hashValue_a otherAttr) (length_a otherAttr) (depth_a otherAttr)
              (uID_a otherAttr) (lID_a otherAttr) (oct_a otherAttr)))"

text \<open>\<open>interestingSQL\<close>: the first watch-list row that lists the SQL id.\<close>

fun interestingSQL :: "string \<Rightarrow> MonitoredSQL list \<Rightarrow> bool \<times> string \<times> int" where
  "interestingSQL getSQLID [] = (False, [], -1)"
| "interestingSQL getSQLID (sw # wantSQL) =
     (if getSQLID \<in> set (SQLID_m sw) then (True, BusinessTxName_m sw, ELAThreshold_m sw)
      else interestingSQL getSQLID wantSQL)"

text \<open>
  \<open>setViolations\<close> updates, in place, the first row whose business transaction name is
  \<open>busTxName\<close>; \<open>sw\<close> is the copy of the row taken by \<open>range\<close> before the update.
  The model returns the updated watch list beside the result.
\<close>

fun setViolations ::
  "MonitoredSQL list \<Rightarrow> string \<Rightarrow> float64 \<Rightarrow> string \<Rightarrow> float64
     \<Rightarrow> (float64 \<times> float64 \<times> 64 word) result \<times> MonitoredSQL list" where
  "setViolations [] busTxName thr sqlid elaF =
     (Inl (Error (ErrSetViolations busTxName sqlid)), [])"
| "setViolations (sw # wantSQL) busTxName thr sqlid elaF =
     (if BusinessTxName_m sw = busTxName then
        (let sw' = sw\<lparr>LastELA := elaF,
                       WorstELA := (if WorstELA sw < elaF then elaF else WorstELA sw),
                       NumViolations := NumViolations sw + 1\<rparr>
         in (Inr (WorstELA sw', LastELA sw', NumViolations sw'), sw' # wantSQL))
      else (let (r, wantSQL') = setViolations wantSQL busTxName thr sqlid elaF
            in (r, sw # wantSQL')))"

text \<open>
  \<open>parseExec\<close>: the cursor number is converted first, the tracker is asked next, and only
  for a known cursor are the CPU and elapsed fields converted; a failure there calls
  \<open>log.Fatal\<close>, so the \<open>return\<close> that follows it is never reached.
\<close>

definition execSep :: "char \<Rightarrow> bool" where
  "execSep r = (r \<in> set [CHR ''#'', CHR '':'', CHR '','', CHR ''='', CHR '' ''])"

definition parseExec ::
  "string \<Rightarrow> CursorTracker \<Rightarrow> (bool \<times> int \<times> string \<times> int \<times> int) result" where
  "parseExec rec curTracker =
     (let words = FieldsFunc rec execSep in
      if length words \<le> 5 then Inl (Error (ErrParseExecWords (length words)))
      else
        (let cursorType = words ! 0; cursorString = words ! 1 in
         case Atoi cursorString of
           Inl e \<Rightarrow> Inl (Error (ErrParseExecCursor cursorString e))
         | Inr cursorInt \<Rightarrow>
             if \<not> hasValue curTracker cursorInt then Inr (False, 0, [], 0, 0)
             else (case Atoi (words ! 3) of
                     Inl e \<Rightarrow> Inl (Fatal e)
                   | Inr cInt \<Rightarrow>
                       (case Atoi (words ! 5) of
                          Inl e \<Rightarrow> Inl (Fatal e)
                        | Inr eInt \<Rightarrow> Inr (True, cursorInt, cursorType, cInt, eInt)))))"

text \<open>
  \<open>parsingInCursor\<close> returns \<open>(newCursor, getCursorID, getSQLID, businessTxName,
  elaThreshold)\<close> and the tracker.
\<close>

definition parsingInCursor ::
  "string \<Rightarrow> MonitoredSQL list \<Rightarrow> CursorTracker
     \<Rightarrow> (bool \<times> int \<times> string \<times> string \<times> int) result \<times> CursorTracker" where
  "parsingInCursor rec wantSQL curTracker =
     (case parseSQLID rec of
        Inl f \<Rightarrow> (Inl f, curTracker)
      | Inr (getSQLID, getCursorString) \<Rightarrow>
          (case Atoi getCursorString of
             Inl e \<Rightarrow> (Inl (Error (ErrParsingInCursorID getSQLID e)), curTracker)
           | Inr getCursorID \<Rightarrow>
               (case interestingSQL getSQLID wantSQL of
                  (False, _, _) \<Rightarrow> (Inr (True, -1, [], [], -1), curTracker)
                | (True, busTxName, elaThreshold) \<Rightarrow>
                    (case compareAndSet curTracker getCursorID
                            (\<lambda>_. openCursor rec getCursorID getSQLID busTxName elaThreshold) of
                       (Inl (Error errExistingCursor), c', _) \<Rightarrow>
                          (Inr (False, getCursorID, getSQLID, busTxName, elaThreshold), c')
                     | (Inl f, c', _) \<Rightarrow> (Inl f, c')
                     | (Inr _, c', _) \<Rightarrow> (Inr (True, -1, [], [], -1), c')))))"

text \<open>
  \<open>parseRecord\<close> returns the summary or the fault, and the watch list and the tracker as
  it leaves them.
\<close>

definition parseRecord ::
  "string \<Rightarrow> MonitoredSQL list \<Rightarrow> CursorTracker
     \<Rightarrow> parsedSummary result \<times> MonitoredSQL list \<times> CursorTracker" where
  "parseRecord rec wantSQL curTracker =
     (case traceRecordType rec of
        traceRecordTypeInvalid \<Rightarrow> (Inr emptySummary, wantSQL, curTracker)
      | traceRecordTypeParsingInCursor \<Rightarrow>
          (case parsingInCursor rec wantSQL curTracker of
             (Inl (Error e), c') \<Rightarrow> (Inl (Error (ErrParseRecordParsing e)), wantSQL, c')
           | (Inl f, c') \<Rightarrow> (Inl f, wantSQL, c')
           | (Inr (newCursor, getCursorID, getSQLID, busTxName, elaThreshold), c') \<Rightarrow>
               if newCursor then (Inr emptySummary, wantSQL, c')
               else (case get c' getCursorID of
                       None \<Rightarrow> (Inl Panic, wantSQL, c')
                     | Some openCur \<Rightarrow>
                         if getSQLID = SQLID openCur then (Inr emptySummary, wantSQL, c')
                         else (let c'' = delete c' getCursorID in
                               case openCursor rec getCursorID getSQLID busTxName elaThreshold of
                                 Inl f \<Rightarrow> (Inl f, wantSQL, c'')
                               | Inr cur \<Rightarrow> (Inr emptySummary, wantSQL, set_c c'' getCursorID cur))))
      | traceRecordTypeParseExecFetch \<Rightarrow>
          (case parseExec rec curTracker of
             Inl f \<Rightarrow> (Inl f, wantSQL, curTracker)
           | Inr (isKnown, cursorID, cursorType, cpu, ela) \<Rightarrow>
               if \<not> isKnown then (Inr emptySummary, wantSQL, curTracker)
               else (case get curTracker cursorID of
                       None \<Rightarrow> (Inl Panic, wantSQL, curTracker)
                     | Some curTemp \<Rightarrow>
                         (let thr = (of_int (ELAThreshold curTemp) :: float64);
                              elaF = (of_int ela :: float64) / 1000
                          in if elaF < thr then (Inr emptySummary, wantSQL, curTracker)
                             else (case setViolations wantSQL (BusinessTxName curTemp) thr
                                          (SQLID curTemp) elaF of
                                     (Inl f, wantSQL') \<Rightarrow> (Inl f, wantSQL', curTracker)
                                   | (Inr (worstv, lastv, numv), wantSQL') \<Rightarrow>
                                       (Inr \<lparr>isViolation = True,
                                             businessTxName = BusinessTxName curTemp,
                                             threshold = thr,
                                             sqlID = SQLID curTemp,
                                             worstELA = worstv,
                                             lastELA = lastv,
                                             numViolations = numv\<rparr>,
                                        wantSQL', curTracker))))))"



section \<open>Package rttanalyzer: trace files and the roster\<close>

text \<open>
  The operating system as the code uses it: the files with their bytes, and the errors
  it may answer with, per operation and path.
\<close>

datatype ioOp = OpOpen | OpRead | OpWrite | OpMkdir

record os_state =
  files :: "string \<rightharpoonup> string"
  denied :: "ioOp \<Rightarrow> string \<rightharpoonup> err"


definition WriteFile :: "os_state \<Rightarrow> string \<Rightarrow> string \<Rightarrow> err option \<times> os_state" where
  "WriteFile os fileName out =
     (case denied os OpWrite fileName of
        Some e \<Rightarrow> (Some e, os)
      | None \<Rightarrow> (None, os\<lparr>files := (files os)(fileName \<mapsto> out)\<rparr>))"

definition MkdirAll :: "os_state \<Rightarrow> string \<Rightarrow> err option" where
  "MkdirAll os dir = denied os OpMkdir dir"

definition Open :: "os_state \<Rightarrow> string \<Rightarrow> err option" where
  "Open os fileName =
     (case denied os OpOpen fileName of
        Some e \<Rightarrow> Some e
      | None \<Rightarrow> (if files os fileName = None then Some (ErrNotExist fileName) else None))"


record jsonTraceFile =
  Name_j :: string
  DirectoryName_j :: string
  Version :: int
  Offset :: int

text \<open>\<open>Roster.R\<close> is a Go map, and a Go map may be nil: \<open>None\<close>.  Reading a nil map
  finds nothing; writing to it panics.\<close>

record Roster =
  R :: "(string \<rightharpoonup> jsonTraceFile) option"

text \<open>
  The functions of Go's library that the roster code calls and the repository does not
  contain are parameters of the model: \<open>filepath.Join\<close> (of two elements),
  \<open>filepath.Dir\<close>, \<open>json.MarshalIndent\<close> and \<open>json.Unmarshal\<close> on a \<open>Roster\<close>.
\<close>

record golib =
  Join :: "string \<Rightarrow> string \<Rightarrow> string"
  Dir :: "string \<Rightarrow> string"
  MarshalIndent :: "Roster \<Rightarrow> err + string"
  Unmarshal :: "string \<Rightarrow> err + Roster"

record TraceFile =
  Name :: string
  DirectoryName :: string
  version :: int
  offset :: int


text \<open>\<open>path.Base\<close> (and \<open>filepath.Base\<close>, the same on Unix) and \<open>filepath.Ext\<close>.\<close>

definition stripTrailingSlashes :: "string \<Rightarrow> string" where
  "stripTrailingSlashes p = rev (dropWhile (\<lambda>c. c = CHR ''/'') (rev p))"

definition Base :: "string \<Rightarrow> string" where
  "Base p =
     (if p = [] then ''.''
      else (let q = stripTrailingSlashes p;
                b = rev (takeWhile (\<lambda>c. c \<noteq> CHR ''/'') (rev q))
            in if b = [] then ''/'' else b))"

definition Ext :: "string \<Rightarrow> string" where
  "Ext p =
     (let e = takeWhile (\<lambda>c. c \<noteq> CHR ''/'') (rev p) in
      if CHR ''.'' \<in> set e then CHR ''.'' # rev (takeWhile (\<lambda>c. c \<noteq> CHR ''.'') e)
      else [])"

text \<open>\<open>OpenTraceFile\<close> and \<open>Roster.TraceFile\<close>; the file handle is the file at its path.\<close>

definition OpenTraceFile :: "golib \<Rightarrow> os_state \<Rightarrow> string \<Rightarrow> err + TraceFile" where
  "OpenTraceFile L os fileName =
     (case Open os fileName of
        Some e \<Rightarrow> Inl e
      | None \<Rightarrow> Inr \<lparr>Name = Base fileName, DirectoryName = Dir L fileName,
                       version = 1, offset = 0\<rparr>)"

definition TraceFile_r :: "golib \<Rightarrow> os_state \<Rightarrow> Roster \<Rightarrow> string \<Rightarrow> err + TraceFile" where
  "TraceFile_r L os r fileName =
     (case (case R r of None \<Rightarrow> None | Some m \<Rightarrow> m fileName) of
        None \<Rightarrow> OpenTraceFile L os fileName
      | Some rf \<Rightarrow>
          (case Open os fileName of
             Some e \<Rightarrow> Inl e
           | None \<Rightarrow> Inr \<lparr>Name = Name_j rf, DirectoryName = DirectoryName_j rf,
                            version = Version rf, offset = Offset rf\<rparr>))"

text \<open>
  \<open>Roster.Save\<close>: the entry is written into the map first; then the roster is
  marshalled, the directory made and the file written, and each of the three may fail.
\<close>

definition Save ::
  "golib \<Rightarrow> os_state \<Rightarrow> Roster \<Rightarrow> string \<Rightarrow> TraceFile \<Rightarrow> unit result \<times> Roster \<times> os_state" where
  "Save L os r fileName tf =
     (case R r of
        None \<Rightarrow> (Inl Panic, r, os)
      | Some m \<Rightarrow>
          (let traceKey = Join L (DirectoryName tf) (Name tf);
               r' = r\<lparr>R := Some (m(traceKey \<mapsto>
                       \<lparr>Name_j = Name tf, DirectoryName_j = DirectoryName tf,
                        Version = version tf, Offset = offset tf\<rparr>))\<rparr>
           in case MarshalIndent L r' of
                Inl e \<Rightarrow> (Inl (Error e), r', os)
              | Inr out \<Rightarrow>
                  (case MkdirAll os (Dir L fileName) of
                     Some e \<Rightarrow> (Inl (Error e), r', os)
                   | None \<Rightarrow>
                       (case WriteFile os fileName out of
                          (Some e, os') \<Rightarrow> (Inl (Error e), r', os')
                        | (None, os') \<Rightarrow> (Inr (), r', os')))))"

text \<open>\<open>UpdateRoster\<close> saves to the package's \<open>RosterFile\<close>, a parameter here.\<close>

definition UpdateRoster ::
  "golib \<Rightarrow> string \<Rightarrow> os_state \<Rightarrow> Roster \<Rightarrow> TraceFile \<Rightarrow> unit result \<times> Roster \<times> os_state" where
  "UpdateRoster L RosterFile os r tf = Save L os r RosterFile tf"

subsection \<open>Reading records\<close>

text \<open>
  \<open>ReadRecords\<close> reads with a \<open>bufio.Scanner\<close> and its default split function
  \<open>bufio.ScanLines\<close>.  \<open>ScanLines\<close> below is that function on the unread bytes of the
  file, all of them in the buffer and the end of the file reached: \<open>None\<close> when no bytes
  are left, else the bytes to advance by and the token.  A line is delivered without its
  LF and without a CR before it; the bytes after the last LF are delivered as a line too.
  The scanner's limit on the length of a token (64 KiB) is not modelled.
\<close>

definition dropCR :: "string \<Rightarrow> string" where
  "dropCR data = (if data \<noteq> [] \<and> last data = CR then butlast data else data)"

definition ScanLines :: "string \<Rightarrow> (nat \<times> string) option" where
  "ScanLines data =
     (if data = [] then None
      else (let line = takeWhile (\<lambda>c. c \<noteq> LF) data in
            if length line < length data then Some (length line + 1, dropCR line)
            else Some (length data, dropCR data)))"

text \<open>The package variable \<open>recordsCount\<close>.\<close>

definition recordsCount :: nat where
  "recordsCount = 1"

text \<open>
  The loop of \<open>ReadRecords\<close>: \<open>data\<close> are the unread bytes, \<open>n\<close> the records taken,
  \<open>off\<close> is \<open>tf.offset\<close>.  A token scanned when the batch is full is dropped and
  the function returns.
\<close>

function readLoop :: "string \<Rightarrow> nat \<Rightarrow> int \<Rightarrow> string list \<Rightarrow> string list \<times> int" where
  "readLoop data n off records =
     (case ScanLines data of
        None \<Rightarrow> (records, off)
      | Some (adv, tok) \<Rightarrow>
          if n < recordsCount
          then readLoop (drop adv data) (n + 1) (off + (int (length tok) + 1)) (records @ [tok @ [LF]])
          else (records, off))"
  by pat_completeness auto
termination
  by (relation "measure (\<lambda>(data, n, off, records). length data)")
     (auto simp: ScanLines_def Let_def split: if_splits)

text \<open>\<open>seek\<close>: seeking to a negative offset is an error; past the end it is not.\<close>

definition seek :: "TraceFile \<Rightarrow> err + TraceFile" where
  "seek tf = (if offset tf < 0 then Inl (ErrIO ''seek: invalid argument'') else Inr tf)"

definition ReadRecords :: "TraceFile \<Rightarrow> string \<Rightarrow> (err + string list) \<times> TraceFile" where
  "ReadRecords tf content =
     (case seek tf of
        Inl e \<Rightarrow> (Inl e, tf)
      | Inr tf1 \<Rightarrow>
          (let (records, off) = readLoop (drop (nat (offset tf1)) content) 0 (offset tf1) []
           in (Inr records, tf1\<lparr>offset := off\<rparr>)))"

section \<open>Package sink: the dumpers\<close>

text \<open>
  A dumper (\<open>*sink.Varz\<close>, \<open>*sink.PubSub\<close>) is an object on the heap, and it holds a
  pointer to a cursor tracker, another object on the heap.  Who shares what is decided
  by the addresses, so the heap is explicit.
\<close>

type_synonym addr = nat

datatype dumperKind = Varz | PubSub | Streamz

record dumper =
  kind :: dumperKind
  DBName :: string
  FileSQL :: string
  MonitoredSQLs :: "MonitoredSQL list"
  CursorTracker :: addr

record heap =
  dumpers :: "addr \<rightharpoonup> dumper"
  trackers :: "addr \<rightharpoonup> CursorTracker"
  nextAddr :: addr

text \<open>
  \<open>Dump\<close> of the dumper at address \<open>d\<close>.  After \<open>parseRecord\<close>, Varz writes its file
  and ignores the outcome, Streamz does nothing, and PubSub calls \<open>rttpubsub.Enqueue\<close>,
  the parameter \<open>enqueue\<close>, whose error it wraps.
\<close>

definition Dump ::
  "(parsedSummary \<Rightarrow> err option) \<Rightarrow> addr \<Rightarrow> heap \<Rightarrow> string \<Rightarrow> unit result \<times> heap" where
  "Dump enqueue d h traceRec =
     (case dumpers h d of
        None \<Rightarrow> (Inl Panic, h)
      | Some v \<Rightarrow>
          (case trackers h (CursorTracker v) of
             None \<Rightarrow> (Inl Panic, h)
           | Some ct \<Rightarrow>
               (let (pr, wantSQL', ct') = parseRecord traceRec (MonitoredSQLs v) ct;
                    h' = h\<lparr>dumpers := (dumpers h)(d \<mapsto> v\<lparr>MonitoredSQLs := wantSQL'\<rparr>),
                           trackers := (trackers h)(CursorTracker v \<mapsto> ct')\<rparr>
                in case pr of
                     Inl f \<Rightarrow> (Inl f, h')
                   | Inr pr \<Rightarrow>
                       if \<not> isViolation pr then (Inr (), h')
                       else if kind v = PubSub
                         then (case enqueue pr of
                                 Some e \<Rightarrow> (Inl (Error (ErrDumpEnqueue e)), h')
                               | None \<Rightarrow> (Inr (), h'))
                         else (Inr (), h'))))"

section \<open>Package miner\<close>

text \<open>The \<open>for _, v := range strs\<close> loop of \<open>Mine\<close>: the first failing \<open>Dump\<close> ends it.\<close>

fun dumpAll :: "('d \<Rightarrow> string \<Rightarrow> unit result \<times> 'd) \<Rightarrow> 'd \<Rightarrow> string list \<Rightarrow> unit result \<times> 'd" where
  "dumpAll dump d [] = (Inr (), d)"
| "dumpAll dump d (v # strs) =
     (case dump d v of
        (Inl f, d') \<Rightarrow> (Inl f, d')
      | (Inr _, d') \<Rightarrow> dumpAll dump d' strs)"

text \<open>
  What the Miner receives on \<open>notify\<close>, in order: a wake, with the bytes appended to
  the trace file before it, or the closing of the channel.  When the list is used up the
  Miner stays blocked on the channel: the result \<open>None\<close>.
\<close>

datatype notification = Woken string | Closed

record 'd minerState =
  m_tf :: TraceFile
  m_content :: string
  m_dumper :: 'd
  m_roster :: Roster
  m_os :: os_state

text \<open>
  \<open>Mine\<close>.  The dumper is an interface: \<open>dump\<close> acts on a state of any type \<open>'d\<close>.
  The result of \<open>tf.UpdateRoster()\<close> is not assigned: an error it returns is dropped (a
  panic inside it is not).
\<close>

function Mine ::
  "golib \<Rightarrow> string \<Rightarrow> ('d \<Rightarrow> string \<Rightarrow> unit result \<times> 'd) \<Rightarrow> 'd minerState \<Rightarrow> notification list
     \<Rightarrow> unit result option \<times> 'd minerState" where
  "Mine L RosterFile dump st notify =
     (case ReadRecords (m_tf st) (m_content st) of
        (Inl e, tf') \<Rightarrow> (Some (Inl (Error e)), st\<lparr>m_tf := tf'\<rparr>)
      | (Inr strs, tf') \<Rightarrow>
          (case dumpAll dump (m_dumper st) strs of
             (Inl f, d') \<Rightarrow> (Some (Inl f), st\<lparr>m_tf := tf', m_dumper := d'\<rparr>)
           | (Inr _, d') \<Rightarrow>
               if length strs = 0 then
                 (case UpdateRoster L RosterFile (m_os st) (m_roster st) tf' of
                    (res, r', os') \<Rightarrow>
                      (let st' = st\<lparr>m_tf := tf', m_dumper := d', m_roster := r', m_os := os'\<rparr>
                       in if res = Inl Panic then (Some (Inl Panic), st')
                          else (case notify of
                                  [] \<Rightarrow> (None, st')
                                | Closed # _ \<Rightarrow> (Some (Inr ()), st')
                                | Woken appended # rest \<Rightarrow>
                                    Mine L RosterFile dump
                                      (st'\<lparr>m_content := m_content st @ appended\<rparr>) rest)))
               else Mine L RosterFile dump (st\<lparr>m_tf := tf', m_dumper := d'\<rparr>) notify))"
  by pat_completeness auto

section \<open>Package watchdog\<close>

text \<open>
  \<open>output\<close> (\<open>output_w\<close> here) allocates one cursor tracker and one dumper that points to
  it.
  \<open>loaded\<close> is what \<open>LoadSQL\<close> gets from \<open>loadSQL\<close> on the dumper's file; an error there
  ends the process (\<open>log.Fatalf\<close>).
\<close>

definition output_w ::
  "string \<Rightarrow> string \<Rightarrow> string \<Rightarrow> MonitoredSQL list result \<Rightarrow> heap \<Rightarrow> addr result \<times> heap" where
  "output_w dbName outputType sqlFile loaded h =
     (let cur = nextAddr h;
          h1 = h\<lparr>trackers := (trackers h)(cur \<mapsto> Map.empty), nextAddr := cur + 1\<rparr>
      in if outputType = ''varz'' \<or> outputType = ''pubsub'' then
           (let d = nextAddr h1;
                v = \<lparr>kind = (if outputType = ''varz'' then Varz else PubSub),
                     DBName = dbName, FileSQL = sqlFile, MonitoredSQLs = [],
                     CursorTracker = cur\<rparr>;
                h2 = h1\<lparr>dumpers := (dumpers h1)(d \<mapsto> v), nextAddr := d + 1\<rparr>
            in case loaded of
                 Inl (Error e) \<Rightarrow> (Inl (Fatal e), h2)
               | Inl f \<Rightarrow> (Inl f, h2)
               | Inr sql \<Rightarrow>
                   (Inr d, h2\<lparr>dumpers := (dumpers h2)(d \<mapsto> v\<lparr>MonitoredSQLs := sql\<rparr>)\<rparr>))
         else (Inl (Error (ErrOutputType outputType)), h1))"

text \<open>
  A channel of \<open>struct{}\<close> values: its capacity, the number of values in its buffer,
  and whether it is closed.  \<open>make(chan struct{})\<close> is \<open>makeChan 0\<close>.
\<close>

record chan =
  cap :: nat
  queued :: nat
  closed :: bool

definition makeChan :: "nat \<Rightarrow> chan" where
  "makeChan n = \<lparr>cap = n, queued = 0, closed = False\<rparr>"

text \<open>
  The send statement \<open>ch <- struct{}{}\<close>, outside any \<open>select\<close>: it panics on a closed
  channel, proceeds when a receiver is waiting or the buffer has room, and blocks
  otherwise.  Whether the Miner waits on the channel at that moment is the argument
  \<open>receiving\<close>.
\<close>

datatype sendResult = Sent chan | SendBlocks | SendPanics

definition send :: "chan \<Rightarrow> bool \<Rightarrow> sendResult" where
  "send ch receiving =
     (if closed ch then SendPanics
      else if receiving then Sent ch
      else if queued ch < cap ch then Sent (ch\<lparr>queued := queued ch + 1\<rparr>)
      else SendBlocks)"

record stat =
  traces :: "string \<rightharpoonup> chan"

text \<open>\<open>addOrGetTrace\<close>: the look-up under the read lock, again under the write lock,
  then the new channel.\<close>

definition addOrGetTrace :: "stat \<Rightarrow> string \<Rightarrow> bool \<times> chan \<times> stat" where
  "addOrGetTrace s key =
     (case traces s key of
        Some i \<Rightarrow> (False, i, s)
      | None \<Rightarrow>
          (case traces s key of
             Some i \<Rightarrow> (False, i, s)
           | None \<Rightarrow>
               (let s' = s\<lparr>traces := (traces s)(key \<mapsto> makeChan 0)\<rparr>
                in (True, the (traces s' key), s'))))"

definition deleteTrace :: "stat \<Rightarrow> string \<Rightarrow> stat" where
  "deleteTrace s key = s\<lparr>traces := (traces s)(key := None)\<rparr>"

text \<open>
  \<open>checkFile\<close>.  A Miner it launches runs as a goroutine; the model records what the
  goroutine is given: the key of its channel, the dumper and the trace file.
\<close>

record minerArgs =
  a_notify :: string
  a_dumper :: addr
  a_tf :: TraceFile

datatype checked =
    NotATrace                 \<comment> \<open>the name is not that of a trace file of the database\<close>
  | Woke                      \<comment> \<open>the send to the Miner's channel proceeded\<close>
  | WatchdogBlocks            \<comment> \<open>the send blocks the Watchdog\<close>
  | WatchdogPanics            \<comment> \<open>send on a closed channel\<close>
  | Exits err                 \<comment> \<open>\<open>log.Fatal\<close>: the trace file cannot be opened\<close>
  | Launched minerArgs

definition checkFile ::
  "golib \<Rightarrow> os_state \<Rightarrow> Roster \<Rightarrow> string \<Rightarrow> addr \<Rightarrow> stat \<Rightarrow> string \<Rightarrow> bool
     \<Rightarrow> checked \<times> stat" where
  "checkFile L os r dbName dumper s fileName receiving =
     (if Ext fileName \<noteq> ''.trc'' then (NotATrace, s)
      else if \<not> HasPrefix (Base fileName) (dbName @ ''_ora_'') then (NotATrace, s)
      else (case addOrGetTrace s fileName of
              (launchMiner, ch, s') \<Rightarrow>
                if \<not> launchMiner then
                  (case send ch receiving of
                     Sent ch' \<Rightarrow> (Woke, s'\<lparr>traces := (traces s')(fileName \<mapsto> ch')\<rparr>)
                   | SendBlocks \<Rightarrow> (WatchdogBlocks, s')
                   | SendPanics \<Rightarrow> (WatchdogPanics, s'))
                else (case TraceFile_r L os r fileName of
                        Inl e \<Rightarrow> (Exits e, s')
                      | Inr f \<Rightarrow>
                          (Launched \<lparr>a_notify = fileName, a_dumper = dumper, a_tf = f\<rparr>, s'))))"

text \<open>
  The event loop of \<open>Run\<close> on the file events of the watched directory: it calls
  \<open>checkFile\<close> with the one dumper \<open>output\<close> returned.  With each event comes whether
  the Miner of that file is waiting on its channel.  The loop collects what
  \<open>checkFile\<close> did, the Miners launched among it; it ends when the Watchdog blocks,
  panics or exits, and, with a mode other than \<open>write\<close> and \<open>create\<close>, at the first
  event (\<open>Run\<close> returns an error).  The roster and the files are those the loop starts
  with.
\<close>

record fsEvent =
  ev_Name :: string
  IsCreate :: bool
  IsModify :: bool

fun eventLoop ::
  "golib \<Rightarrow> os_state \<Rightarrow> Roster \<Rightarrow> string \<Rightarrow> string \<Rightarrow> addr \<Rightarrow> stat \<Rightarrow> (fsEvent \<times> bool) list
     \<Rightarrow> checked list" where
  "eventLoop L os r dbName mode dumper s [] = []"
| "eventLoop L os r dbName mode dumper s ((event, receiving) # events) =
     (if (mode = ''write'' \<and> (IsModify event \<or> IsCreate event))
         \<or> (mode = ''create'' \<and> IsCreate event)
      then (case checkFile L os r dbName dumper s (ev_Name event) receiving of
              (c, s') \<Rightarrow>
                (case c of
                   WatchdogBlocks \<Rightarrow> [c]
                 | WatchdogPanics \<Rightarrow> [c]
                 | Exits e \<Rightarrow> [c]
                 | _ \<Rightarrow> c # eventLoop L os r dbName mode dumper s' events))
      else if mode \<noteq> ''write'' \<and> mode \<noteq> ''create'' then []
      else eventLoop L os r dbName mode dumper s events)"

section \<open>An invariant of the parser's state\<close>

text \<open>
  Every cursor of the tracker carries the business transaction of a row of the watch
  list.  It holds for the empty tracker \<open>output\<close> creates, and \<open>parseRecord\<close> keeps it:
  cursors are opened only for SQL ids the watch list knows, under the row's name, and the
  names of the rows never change.
\<close>

definition trackerOK :: "MonitoredSQL list \<Rightarrow> CursorTracker \<Rightarrow> bool" where
  "trackerOK wantSQL ct =
     (\<forall>k c. ct k = Some c \<longrightarrow> BusinessTxName c \<in> BusinessTxName_m ` set wantSQL)"

section \<open>Termination of the Miner's loop\<close>

text \<open>Every record \<open>ReadRecords\<close> returns moves the offset forward, and each empty batch
  consumes a notification.\<close>

lemma readLoop_progress:
  "readLoop data n off recs = (recs', off') \<Longrightarrow>
     off \<le> off' \<and> (recs' \<noteq> recs \<longrightarrow> data \<noteq> [] \<and> off < off')"
proof (induction data n off recs arbitrary: recs' off' rule: readLoop.induct)
  case (1 data n off records)
  show ?case
  proof (cases "ScanLines data")
    case None
    with "1.prems" show ?thesis by simp
  next
    case (Some p)
    obtain adv tok where p: "p = (adv, tok)" by (cases p)
    have ne: "data \<noteq> []" using Some by (auto simp: ScanLines_def split: if_splits)
    show ?thesis
    proof (cases "n < recordsCount")
      case True
      with "1.prems" Some p
      have r: "readLoop (drop adv data) (n + 1) (off + (int (length tok) + 1))
                 (records @ [tok @ [LF]]) = (recs', off')"
        by simp
      from "1.IH"[OF Some p[symmetric] True r] ne show ?thesis by auto
    next
      case False
      with "1.prems" Some p show ?thesis by simp
    qed
  qed
qed

lemma ReadRecords_progress:
  assumes "ReadRecords tf content = (Inr strs, tf')" "strs \<noteq> []"
  shows "length content - nat (offset tf') < length content - nat (offset tf)"
proof -
  from assms(1) have nn: "0 \<le> offset tf"
    by (auto simp: ReadRecords_def seek_def split: if_splits)
  obtain recs off where rl: "readLoop (drop (nat (offset tf)) content) 0 (offset tf) [] = (recs, off)"
    by (cases "readLoop (drop (nat (offset tf)) content) 0 (offset tf) []")
  with assms(1) nn have e: "strs = recs" "offset tf' = off"
    by (auto simp: ReadRecords_def seek_def)
  from readLoop_progress[OF rl] assms(2) e
  have "drop (nat (offset tf)) content \<noteq> []" "offset tf < off" by auto
  with nn e show ?thesis by auto
qed

termination Mine
  by (relation "measures [\<lambda>(L, rf, dump, st, notify). length notify,
                           \<lambda>(L, rf, dump, st, notify). length (m_content st) - nat (offset (m_tf st))]")
     (auto dest: ReadRecords_progress ReadRecords_progress[OF sym])

section \<open>The trace parser on PARSE, EXEC and FETCH records\<close>






text \<open>The hypothesis of the theorem on the cursor's business transaction is an invariant
  of the parser's state.\<close>

lemma interestingSQL_in:
  "interestingSQL sqlid ws = (True, b, t) \<Longrightarrow> b \<in> BusinessTxName_m ` set ws"
  by (induction ws) (auto split: if_splits)

lemma setViolations_names:
  "setViolations ws name thr sq e = (res, ws') \<Longrightarrow>
     map BusinessTxName_m ws' = map BusinessTxName_m ws"
  by (induction ws arbitrary: res ws') (auto simp: Let_def split: if_splits prod.splits)

lemma openCursor_name:
  "openCursor rec k sqlid b t = Inr cur \<Longrightarrow> BusinessTxName cur = b"
  by (auto simp: openCursor_def bindr_def NewCursor_def split: sum.splits)

lemma parsingInCursor_ok:
  assumes "trackerOK ws ct" "parsingInCursor rec ws ct = (res, ct')"
  shows "trackerOK ws ct'
       \<and> (\<forall>k sq b t. res = Inr (False, k, sq, b, t) \<longrightarrow> b \<in> BusinessTxName_m ` set ws)"
  using assms
  by (auto simp: parsingInCursor_def compareAndSet_def trackerOK_def
           dest!: interestingSQL_in openCursor_name
           split: sum.splits prod.splits bool.splits if_splits fault.splits err.splits)

lemma trackerOK_empty: "trackerOK wantSQL Map.empty"
  by (simp add: trackerOK_def)

lemma parseRecord_trackerOK:
  assumes "trackerOK ws ct" "parseRecord rec ws ct = (res, ws', ct')"
  shows "trackerOK ws' ct'"
proof (cases "traceRecordType rec")
  case traceRecordTypeInvalid
  with assms show ?thesis by (simp add: parseRecord_def)
next
  case traceRecordTypeParsingInCursor
  obtain r1 c1 where p: "parsingInCursor rec ws ct = (r1, c1)"
    by (cases "parsingInCursor rec ws ct")
  from parsingInCursor_ok[OF assms(1) p] have ok: "trackerOK ws c1"
    and b: "\<forall>k sq b t. r1 = Inr (False, k, sq, b, t) \<longrightarrow> b \<in> BusinessTxName_m ` set ws"
    by auto
  from assms(2) traceRecordTypeParsingInCursor p ok b show ?thesis
    by (auto simp: parseRecord_def get_def delete_def set_c_def trackerOK_def Let_def
             dest!: openCursor_name
             split: sum.splits prod.splits if_splits fault.splits option.splits)
next
  case traceRecordTypeParseExecFetch
  have m: "map BusinessTxName_m ws' = map BusinessTxName_m ws"
    using assms(2) traceRecordTypeParseExecFetch
    by (auto simp: parseRecord_def Let_def dest!: setViolations_names
             split: sum.splits prod.splits if_splits option.splits)
  have "BusinessTxName_m ` set ws' = BusinessTxName_m ` set ws"
    using arg_cong[OF m, of set] by simp
  moreover have "ct' = ct"
    using assms(2) traceRecordTypeParseExecFetch
    by (auto simp: parseRecord_def Let_def split: sum.splits prod.splits if_splits option.splits)
  ultimately show ?thesis using assms(1) by (simp add: trackerOK_def)
qed



section \<open>The cursor tracker's compare-and-set\<close>

text \<open>
  Claim C6.  When the key is present, \<open>compareAndSet\<close> reports \<open>errExistingCursor\<close>,
  does not call \<open>open\<close> and leaves the tracker as it is.  When the key is absent and
  \<open>open\<close> returns an error, that error is returned, wrapped, and the tracker is as it
  was.  When the key is absent and \<open>open\<close> returns a cursor, the cursor is stored under
  the key and returned.  In both cases of an absent key the call of \<open>open\<close> lies between
  taking and releasing the write lock.
\<close>

theorem compareAndSet_open_if_absent:
  "(c key \<noteq> None \<longrightarrow>
      compareAndSet c key openf = (Inl (Error errExistingCursor), c, [EvLock, EvUnlock]))
 \<and> (c key = None \<longrightarrow> (\<forall>e. openf () = Inl (Error e) \<longrightarrow>
      compareAndSet c key openf =
        (Inl (Error (ErrCompareAndSetOpen e)), c, [EvLock, EvOpen, EvUnlock])))
 \<and> (c key = None \<longrightarrow> (\<forall>cur. openf () = Inr cur \<longrightarrow>
      compareAndSet c key openf = (Inr cur, c(key \<mapsto> cur), [EvLock, EvOpen, EvUnlock])))"
  by (simp add: compareAndSet_def)

text \<open>The three cases on a tracker that holds cursor 17: key 17 with an \<open>open\<close> that
  would succeed, key 18 with an \<open>open\<close> that fails, key 18 with an \<open>open\<close> that succeeds.\<close>

theorem compareAndSet_open_if_absent_witness:
  "compareAndSet [17 \<mapsto> NewCursor 17 ''abc'' ''OE'' 1 ''99'' 120 0 0 0 3] 17
      (\<lambda>_. Inr (NewCursor 17 ''def'' ''GL'' 10 ''7'' 1 0 0 0 3))
     = (Inl (Error errExistingCursor),
        [17 \<mapsto> NewCursor 17 ''abc'' ''OE'' 1 ''99'' 120 0 0 0 3], [EvLock, EvUnlock])
   \<and> compareAndSet [17 \<mapsto> NewCursor 17 ''abc'' ''OE'' 1 ''99'' 120 0 0 0 3] 18
      (\<lambda>_. Inl (Error (ErrParseOtherAttrWords 3)))
     = (Inl (Error (ErrCompareAndSetOpen (ErrParseOtherAttrWords 3))),
        [17 \<mapsto> NewCursor 17 ''abc'' ''OE'' 1 ''99'' 120 0 0 0 3], [EvLock, EvOpen, EvUnlock])
   \<and> compareAndSet [17 \<mapsto> NewCursor 17 ''abc'' ''OE'' 1 ''99'' 120 0 0 0 3] 18
      (\<lambda>_. Inr (NewCursor 18 ''def'' ''GL'' 10 ''7'' 1 0 0 0 3))
     = (Inr (NewCursor 18 ''def'' ''GL'' 10 ''7'' 1 0 0 0 3),
        [17 \<mapsto> NewCursor 17 ''abc'' ''OE'' 1 ''99'' 120 0 0 0 3,
         18 \<mapsto> NewCursor 18 ''def'' ''GL'' 10 ''7'' 1 0 0 0 3], [EvLock, EvOpen, EvUnlock])"
proof -
  let ?c = "[17 \<mapsto> NewCursor 17 ''abc'' ''OE'' 1 ''99'' 120 0 0 0 3] :: CursorTracker"
  have p: "?c 17 \<noteq> None" and a: "?c 18 = None" by simp_all
  note t1 = compareAndSet_open_if_absent
              [of ?c 17 "\<lambda>_. Inr (NewCursor 17 ''def'' ''GL'' 10 ''7'' 1 0 0 0 3)"]
  note t2 = compareAndSet_open_if_absent
              [of ?c 18 "\<lambda>_. Inl (Error (ErrParseOtherAttrWords 3))"]
  note t3 = compareAndSet_open_if_absent
              [of ?c 18 "\<lambda>_. Inr (NewCursor 18 ''def'' ''GL'' 10 ''7'' 1 0 0 0 3)"]
  from t1 p have 1: "compareAndSet ?c 17 (\<lambda>_. Inr (NewCursor 17 ''def'' ''GL'' 10 ''7'' 1 0 0 0 3))
                      = (Inl (Error errExistingCursor), ?c, [EvLock, EvUnlock])"
    by blast
  from t2 a have 2: "compareAndSet ?c 18 (\<lambda>_. Inl (Error (ErrParseOtherAttrWords 3)))
                      = (Inl (Error (ErrCompareAndSetOpen (ErrParseOtherAttrWords 3))), ?c,
                         [EvLock, EvOpen, EvUnlock])"
    by blast
  from t3 a have 3: "compareAndSet ?c 18 (\<lambda>_. Inr (NewCursor 18 ''def'' ''GL'' 10 ''7'' 1 0 0 0 3))
                      = (Inr (NewCursor 18 ''def'' ''GL'' 10 ''7'' 1 0 0 0 3),
                         ?c(18 \<mapsto> NewCursor 18 ''def'' ''GL'' 10 ''7'' 1 0 0 0 3),
                         [EvLock, EvOpen, EvUnlock])"
    by blast
  from 1 2 3 show ?thesis by simp
qed

section \<open>Loading the watch list\<close>





section \<open>Reading records and the Miner\<close>

declare Mine.simps [simp del]

text \<open>
  Claim C2 (the code departs from it).  The trace file holds the first 20 bytes of an
  EXEC line whose LF the database has not written yet.  \<open>ReadRecords\<close> returns these
  bytes as a record, with an LF of its own appended, and moves the offset to 21, one
  byte past the end of the file.  When the line is complete, the next read starts inside
  it and returns its tail as a record.  And a line that ends in CR LF moves the offset
  by one byte less than the line has.
\<close>

theorem ReadRecords_partial_line:
  "ReadRecords \<lparr>Name = ''db_ora_1.trc'', DirectoryName = ''/t'', version = 1, offset = 0\<rparr>
      ''EXEC #17:c=2000,e=50''
   = (Inr [''EXEC #17:c=2000,e=50'' @ [LF]],
      \<lparr>Name = ''db_ora_1.trc'', DirectoryName = ''/t'', version = 1, offset = 21\<rparr>)
 \<and> length ''EXEC #17:c=2000,e=50'' = 20
 \<and> ReadRecords \<lparr>Name = ''db_ora_1.trc'', DirectoryName = ''/t'', version = 1, offset = 21\<rparr>
      (''EXEC #17:c=2000,e=5000,p=0'' @ [LF])
   = (Inr [''0,p=0'' @ [LF]],
      \<lparr>Name = ''db_ora_1.trc'', DirectoryName = ''/t'', version = 1, offset = 27\<rparr>)
 \<and> ReadRecords \<lparr>Name = ''db_ora_1.trc'', DirectoryName = ''/t'', version = 1, offset = 0\<rparr>
      (''ab'' @ [CR, LF] @ ''cd'' @ [LF])
   = (Inr [''ab'' @ [LF]],
      \<lparr>Name = ''db_ora_1.trc'', DirectoryName = ''/t'', version = 1, offset = 3\<rparr>)"
  by (simp add: ReadRecords_def seek_def ScanLines_def recordsCount_def dropCR_def)


lemma Mine_empty_batch_closed:
  assumes "ReadRecords (m_tf st) (m_content st) = (Inr [], tf')"
      and "UpdateRoster L RosterFile (m_os st) (m_roster st) tf' = (res, r', os')"
      and "res \<noteq> Inl Panic"
  shows "Mine L RosterFile dump st (Closed # rest)
           = (Some (Inr ()), st\<lparr>m_tf := tf', m_dumper := m_dumper st, m_roster := r', m_os := os'\<rparr>)"
  using assms by (subst Mine.simps) simp

text \<open>
  Claim C8 (the code departs from it).  The Miner has read its trace file to the end,
  the operating system refuses to make the roster's directory, and the Watchdog then
  closes the channel.  \<open>UpdateRoster\<close> returns an error, whatever the library does, and
  \<open>Mine\<close> returns nil, whatever the dumper: the Miner does not return the error of the
  save, it goes on to wait on its channel.
\<close>

theorem Mine_drops_save_error:
  "(\<exists>e. fst (UpdateRoster L RosterFile
               \<lparr>files = [''/t/db_ora_1.trc'' \<mapsto> ''''],
                denied = (\<lambda>op p. if op = OpMkdir then Some (ErrIO ''permission denied'') else None)\<rparr>
               \<lparr>R = Some Map.empty\<rparr>
               \<lparr>Name = ''db_ora_1.trc'', DirectoryName = ''/t'', version = 1, offset = 0\<rparr>)
          = Inl (Error e))
 \<and> fst (Mine L RosterFile dump
          \<lparr>m_tf = \<lparr>Name = ''db_ora_1.trc'', DirectoryName = ''/t'', version = 1, offset = 0\<rparr>,
           m_content = '''',
           m_dumper = d,
           m_roster = \<lparr>R = Some Map.empty\<rparr>,
           m_os = \<lparr>files = [''/t/db_ora_1.trc'' \<mapsto> ''''],
                   denied = (\<lambda>op p. if op = OpMkdir then Some (ErrIO ''permission denied'')
                                    else None)\<rparr>\<rparr>
          [Closed])
     = Some (Inr ())"
proof -
  let ?tf = "\<lparr>Name = ''db_ora_1.trc'', DirectoryName = ''/t'', version = 1, offset = 0\<rparr>"
  let ?os = "\<lparr>files = [''/t/db_ora_1.trc'' \<mapsto> ''''],
              denied = (\<lambda>op p. if op = OpMkdir then Some (ErrIO ''permission denied'') else None)\<rparr>"
  let ?r = "\<lparr>R = Some Map.empty\<rparr>"
  let ?st = "\<lparr>m_tf = ?tf, m_content = '''', m_dumper = d, m_roster = ?r, m_os = ?os\<rparr>"
  have rr: "ReadRecords (m_tf ?st) (m_content ?st) = (Inr [], ?tf)"
    by (simp add: ReadRecords_def seek_def ScanLines_def)
  have ur: "\<exists>e. fst (UpdateRoster L RosterFile ?os ?r ?tf) = Inl (Error e)"
    by (simp add: UpdateRoster_def Save_def MkdirAll_def Let_def split: sum.split)
  obtain res r' os' where u: "UpdateRoster L RosterFile (m_os ?st) (m_roster ?st) ?tf = (res, r', os')"
    by (cases "UpdateRoster L RosterFile (m_os ?st) (m_roster ?st) ?tf")
  with ur have np: "res \<noteq> Inl Panic" by auto
  from Mine_empty_batch_closed[OF rr u np, of dump "[]"] ur show ?thesis
    by simp
qed





section \<open>The Watchdog: one dumper, unbuffered channels\<close>

lemma eventLoop_dumper:
  "Launched m \<in> set (eventLoop L os r dbName mode d s events) \<Longrightarrow> a_dumper m = d"
proof (induction events arbitrary: s)
  case Nil
  then show ?case by simp
next
  case (Cons ev events)
  obtain event receiving where ev: "ev = (event, receiving)" by (cases ev)
  obtain c s' where cf: "checkFile L os r dbName d s (ev_Name event) receiving = (c, s')"
    by (cases "checkFile L os r dbName d s (ev_Name event) receiving")
  have here: "c = Launched m \<Longrightarrow> a_dumper m = d"
    using cf by (auto simp: checkFile_def split: if_splits prod.splits sendResult.splits sum.splits)
  from Cons.prems ev cf Cons.IH here show ?case
    by (auto split: if_splits checked.splits)
qed

text \<open>
  Claim C4, corrected.  A Watchdog run for database \<open>db\<close>, with the watch list of
  scenario S1, sees two trace files appear.  \<open>db_ora_1.trc\<close> holds one PARSING IN CURSOR
  record that opens cursor 17; \<open>db_ora_2.trc\<close> holds one EXEC record for cursor 17 and
  no PARSING IN CURSOR record.  Two Miners are launched, on different files, and they
  are given the same dumper.  After the first Miner has read its file, the second reads
  its own: the EXEC of the second file finds the cursor opened from the first file and
  is counted as a violation.
\<close>

theorem shared_tracker_counterexample:
  "(let L = \<lparr>Join = (\<lambda>d n. d @ ''/'' @ n), Dir = (\<lambda>p. ''/t''),
             MarshalIndent = (\<lambda>r. Inr ''{}''),
             Unmarshal = (\<lambda>s. Inl (ErrJSON ''unused''))\<rparr>;
        file1 = ''PARSING IN CURSOR #17 len=120 dep=0 uid=0 oct=3 lid=0 tim=1 hv=99 ad='x' sqlid='abc''
                  @ [CHR 0x27, LF];
        file2 = ''EXEC #17:c=2000,e=5000,p=0'' @ [LF];
        os = \<lparr>files = [''/t/db_ora_1.trc'' \<mapsto> file1, ''/t/db_ora_2.trc'' \<mapsto> file2],
              denied = (\<lambda>op. Map.empty)\<rparr>;
        r = \<lparr>R = Some Map.empty\<rparr>;
        wl = [\<lparr>BusinessTxName_m = ''OE'', ELAThreshold_m = 1, SQLID_m = [''abc''],
               LastELA = 0, WorstELA = 0, NumViolations = 0\<rparr>];
        (rd, h) = output_w ''db'' ''varz'' ''rtta.sqlinput'' (Inr wl)
                    \<lparr>dumpers = Map.empty, trackers = Map.empty, nextAddr = 0\<rparr>
    in case rd of
         Inl f \<Rightarrow> False
       | Inr d \<Rightarrow>
          (case eventLoop L os r ''db'' ''write'' d \<lparr>traces = Map.empty\<rparr>
                  [(\<lparr>ev_Name = ''/t/db_ora_1.trc'', IsCreate = True, IsModify = False\<rparr>, False),
                   (\<lparr>ev_Name = ''/t/db_ora_2.trc'', IsCreate = True, IsModify = False\<rparr>, False)] of
             [Launched m1, Launched m2] \<Rightarrow>
               (let out1 = Mine L ''/opt/rtta/rtta.roster'' (Dump (\<lambda>s. None) (a_dumper m1))
                             \<lparr>m_tf = a_tf m1, m_content = file1, m_dumper = h,
                              m_roster = r, m_os = os\<rparr> [Closed];
                    out2 = Mine L ''/opt/rtta/rtta.roster'' (Dump (\<lambda>s. None) (a_dumper m2))
                             \<lparr>m_tf = a_tf m2, m_content = file2, m_dumper = m_dumper (snd out1),
                              m_roster = m_roster (snd out1), m_os = m_os (snd out1)\<rparr> [Closed]
                in a_notify m1 = ''/t/db_ora_1.trc'' \<and> a_notify m2 = ''/t/db_ora_2.trc''
                 \<and> Name (a_tf m1) = ''db_ora_1.trc'' \<and> Name (a_tf m2) = ''db_ora_2.trc''
                 \<and> a_dumper m1 = a_dumper m2
                 \<and> fst out1 = Some (Inr ()) \<and> fst out2 = Some (Inr ())
                 \<and> map_option (map NumViolations \<circ> MonitoredSQLs)
                      (dumpers (m_dumper (snd out1)) d) = Some [0]
                 \<and> map_option (map NumViolations \<circ> MonitoredSQLs)
                      (dumpers (m_dumper (snd out2)) d) = Some [1])
           | _ \<Rightarrow> False))"
  by code_simp

text \<open>
  Claim C4, as amended.  \<open>output\<close> allocates one cursor tracker, empty, and the dumper it
  returns points to it; every Miner that the event loop launches is given this dumper.
  So all Miners of a Watchdog run work on the same cursor tracker, and a cursor opened
  from one trace file is seen when the records of any other trace file are parsed.
\<close>

theorem miners_share_cursor_tracker:
  assumes "output_w dbName outputType sqlFile loaded h = (Inr d, h')"
  shows "\<exists>v. dumpers h' d = Some v
           \<and> CursorTracker v = nextAddr h
           \<and> trackers h' (CursorTracker v) = Some Map.empty
           \<and> (\<forall>m1 m2. Launched m1 \<in> set (eventLoop L os r dbName mode d s events)
                    \<longrightarrow> Launched m2 \<in> set (eventLoop L os r dbName mode d s events)
                    \<longrightarrow> a_dumper m1 = d \<and> a_dumper m2 = d)"
proof -
  from assms obtain sql where
    v: "dumpers h' d = Some \<lparr>kind = (if outputType = ''varz'' then Varz else PubSub),
                             DBName = dbName, FileSQL = sqlFile, MonitoredSQLs = sql,
                             CursorTracker = nextAddr h\<rparr>"
    and t: "trackers h' (nextAddr h) = Some Map.empty"
    by (auto simp: output_w_def Let_def split: if_splits sum.splits fault.splits)
  from v t eventLoop_dumper[of _ L os r dbName mode d s events] show ?thesis
    by auto
qed

text \<open>The theorem on the run of the counterexample: two Miners, one dumper, one tracker.\<close>

theorem miners_share_cursor_tracker_witness:
  "(\<exists>v. dumpers (snd (output_w ''db'' ''varz'' ''rtta.sqlinput'' (Inr [])
                        \<lparr>dumpers = Map.empty, trackers = Map.empty, nextAddr = 0\<rparr>)) 1 = Some v
       \<and> CursorTracker v = 0)
 \<and> eventLoop \<lparr>Join = (\<lambda>d n. d @ ''/'' @ n), Dir = (\<lambda>p. ''/t''),
               MarshalIndent = (\<lambda>r. Inr ''{}''),
               Unmarshal = (\<lambda>s. Inl (ErrJSON ''unused''))\<rparr>
       \<lparr>files = [''/t/db_ora_1.trc'' \<mapsto> [], ''/t/db_ora_2.trc'' \<mapsto> []],
        denied = (\<lambda>op. Map.empty)\<rparr>
       \<lparr>R = Some Map.empty\<rparr> ''db'' ''write'' 1 \<lparr>traces = Map.empty\<rparr>
       [(\<lparr>ev_Name = ''/t/db_ora_1.trc'', IsCreate = True, IsModify = False\<rparr>, False),
        (\<lparr>ev_Name = ''/t/db_ora_2.trc'', IsCreate = True, IsModify = False\<rparr>, False)]
    = [Launched \<lparr>a_notify = ''/t/db_ora_1.trc'', a_dumper = 1,
                 a_tf = \<lparr>Name = ''db_ora_1.trc'', DirectoryName = ''/t'', version = 1, offset = 0\<rparr>\<rparr>,
       Launched \<lparr>a_notify = ''/t/db_ora_2.trc'', a_dumper = 1,
                 a_tf = \<lparr>Name = ''db_ora_2.trc'', DirectoryName = ''/t'', version = 1, offset = 0\<rparr>\<rparr>]"
proof -
  let ?h = "\<lparr>dumpers = Map.empty, trackers = Map.empty, nextAddr = 0\<rparr>"
  let ?L = "\<lparr>Join = (\<lambda>d n. d @ ''/'' @ n), Dir = (\<lambda>p. ''/t''),
               MarshalIndent = (\<lambda>r. Inr ''{}''),
               Unmarshal = (\<lambda>s. Inl (ErrJSON ''unused''))\<rparr>"
  let ?os = "\<lparr>files = [''/t/db_ora_1.trc'' \<mapsto> [], ''/t/db_ora_2.trc'' \<mapsto> []],
        denied = (\<lambda>op. Map.empty)\<rparr>"
  let ?evs = "[(\<lparr>ev_Name = ''/t/db_ora_1.trc'', IsCreate = True, IsModify = False\<rparr>, False),
        (\<lparr>ev_Name = ''/t/db_ora_2.trc'', IsCreate = True, IsModify = False\<rparr>, False)]"
  have o: "output_w ''db'' ''varz'' ''rtta.sqlinput'' (Inr []) ?h
             = (Inr 1, snd (output_w ''db'' ''varz'' ''rtta.sqlinput'' (Inr []) ?h))"
    by (simp add: output_w_def Let_def)
  have e1: "Ext ''/t/db_ora_1.trc'' = ''.trc''" and e2: "Ext ''/t/db_ora_2.trc'' = ''.trc''"
    by code_simp+
  have b1: "Base ''/t/db_ora_1.trc'' = ''db_ora_1.trc''"
    and b2: "Base ''/t/db_ora_2.trc'' = ''db_ora_2.trc''"
    by code_simp+
  have loop: "eventLoop ?L ?os \<lparr>R = Some Map.empty\<rparr> ''db'' ''write'' 1 \<lparr>traces = Map.empty\<rparr> ?evs
    = [Launched \<lparr>a_notify = ''/t/db_ora_1.trc'', a_dumper = 1,
                 a_tf = \<lparr>Name = ''db_ora_1.trc'', DirectoryName = ''/t'', version = 1, offset = 0\<rparr>\<rparr>,
       Launched \<lparr>a_notify = ''/t/db_ora_2.trc'', a_dumper = 1,
                 a_tf = \<lparr>Name = ''db_ora_2.trc'', DirectoryName = ''/t'', version = 1, offset = 0\<rparr>\<rparr>]"
    by (simp add: checkFile_def e1 e2 b1 b2 HasPrefix_def addOrGetTrace_def makeChan_def
          TraceFile_r_def OpenTraceFile_def Open_def Let_def)
  from miners_share_cursor_tracker[where L = ?L and os = ?os and r = "\<lparr>R = Some Map.empty\<rparr>"
         and mode = "''write''" and s = "\<lparr>traces = Map.empty\<rparr>" and events = ?evs, OF o]
  obtain v where "dumpers (snd (output_w ''db'' ''varz'' ''rtta.sqlinput'' (Inr []) ?h)) 1 = Some v"
    "CursorTracker v = nextAddr ?h"
    by blast
  with loop show ?thesis by auto
qed

lemma checkFile_tracked:
  assumes "Ext fileName = ''.trc''" and "HasPrefix (Base fileName) (dbName @ ''_ora_'')"
      and "traces s fileName = Some ch" and "\<not> closed ch"
      and "cap ch = 0" and "queued ch = 0"
  shows "checkFile L os r dbName dumper s fileName receiving
           = (if receiving then Woke else WatchdogBlocks, s)"
proof -
  have "s\<lparr>traces := (traces s)(fileName \<mapsto> ch)\<rparr> = s"
    using assms(3) by (simp add: map_upd_triv)
  then show ?thesis
    using assms by (simp add: checkFile_def addOrGetTrace_def send_def)
qed

lemma checkFile_unbuffered:
  assumes "\<forall>key ch. traces s key = Some ch \<longrightarrow> cap ch = 0 \<and> queued ch = 0"
      and "checkFile L os r dbName dumper s fileName receiving = (c, s')"
  shows "\<forall>key ch. traces s' key = Some ch \<longrightarrow> cap ch = 0 \<and> queued ch = 0"
proof (cases "traces s fileName")
  case None
  with assms show ?thesis
    by (auto simp: checkFile_def addOrGetTrace_def makeChan_def Let_def
             split: if_splits sum.splits)
next
  case (Some ch)
  with assms(1) have z: "cap ch = 0" "queued ch = 0" by auto
  with assms Some show ?thesis
    by (auto simp: checkFile_def addOrGetTrace_def send_def split: if_splits)
qed

text \<open>
  Claim C5, corrected.  The channel \<open>addOrGetTrace\<close> creates for a new trace file has
  capacity 0, not 1; and the next event for that file, arriving while its Miner is not
  waiting on the channel, leaves the Watchdog blocked in the send: the wake is not
  dropped and the Watchdog does not go on.
\<close>

theorem wake_channel_counterexample:
  "(case addOrGetTrace \<lparr>traces = Map.empty\<rparr> ''/t/db_ora_1.trc'' of
      (launchMiner, ch, s') \<Rightarrow>
        launchMiner \<and> cap ch = 0 \<and> cap ch \<noteq> 1
      \<and> fst (checkFile \<lparr>Join = (\<lambda>d n. d @ ''/'' @ n), Dir = (\<lambda>p. ''/t''),
                         MarshalIndent = (\<lambda>r. Inr ''{}''),
                         Unmarshal = (\<lambda>s. Inl (ErrJSON ''unused''))\<rparr>
                 \<lparr>files = [''/t/db_ora_1.trc'' \<mapsto> []], denied = (\<lambda>op. Map.empty)\<rparr>
                 \<lparr>R = Some Map.empty\<rparr> ''db'' 1 s' ''/t/db_ora_1.trc'' False)
          = WatchdogBlocks)"
  by code_simp

text \<open>
  Claim C5, as amended.  Let every channel of the trace table be unbuffered and empty,
  as in the table \<open>Run\<close> starts with.  Then the channel \<open>addOrGetTrace\<close> creates for an
  untracked file is unbuffered and empty (capacity 0), and for a tracked file it
  returns the channel there is.  An event for a tracked trace file whose channel is open
  performs a blocking send: the wake is delivered when the Miner is waiting on the
  channel, and otherwise the Watchdog blocks; no wake is dropped.  And every channel of
  the table is unbuffered and empty after \<open>checkFile\<close> again.
\<close>

theorem wake_channel_unbuffered_blocking:
  assumes "\<forall>key ch. traces s key = Some ch \<longrightarrow> cap ch = 0 \<and> queued ch = 0"
  shows "(traces s fileName = None \<longrightarrow>
            addOrGetTrace s fileName
              = (True, makeChan 0, s\<lparr>traces := (traces s)(fileName \<mapsto> makeChan 0)\<rparr>)
            \<and> cap (makeChan 0) = 0 \<and> queued (makeChan 0) = 0)
       \<and> (\<forall>ch. traces s fileName = Some ch \<longrightarrow> addOrGetTrace s fileName = (False, ch, s))
       \<and> (\<forall>ch. Ext fileName = ''.trc'' \<and> HasPrefix (Base fileName) (dbName @ ''_ora_'')
                \<and> traces s fileName = Some ch \<and> \<not> closed ch \<longrightarrow>
              checkFile L os r dbName dumper s fileName receiving
                = (if receiving then Woke else WatchdogBlocks, s))
       \<and> (\<forall>key ch. traces (snd (checkFile L os r dbName dumper s fileName receiving)) key = Some ch
              \<longrightarrow> cap ch = 0 \<and> queued ch = 0)"
proof (intro conjI)
  show "traces s fileName = None \<longrightarrow>
            addOrGetTrace s fileName
              = (True, makeChan 0, s\<lparr>traces := (traces s)(fileName \<mapsto> makeChan 0)\<rparr>)
            \<and> cap (makeChan 0) = 0 \<and> queued (makeChan 0) = 0"
    by (simp add: addOrGetTrace_def makeChan_def Let_def)
  show "\<forall>ch. traces s fileName = Some ch \<longrightarrow> addOrGetTrace s fileName = (False, ch, s)"
    by (simp add: addOrGetTrace_def)
  show "\<forall>ch. Ext fileName = ''.trc'' \<and> HasPrefix (Base fileName) (dbName @ ''_ora_'')
                \<and> traces s fileName = Some ch \<and> \<not> closed ch \<longrightarrow>
              checkFile L os r dbName dumper s fileName receiving
                = (if receiving then Woke else WatchdogBlocks, s)"
    using assms checkFile_tracked[of fileName dbName s _ L os r dumper receiving] by blast
  show "\<forall>key ch. traces (snd (checkFile L os r dbName dumper s fileName receiving)) key = Some ch
              \<longrightarrow> cap ch = 0 \<and> queued ch = 0"
    using checkFile_unbuffered[OF assms, of L os r dbName dumper fileName receiving]
    by (cases "checkFile L os r dbName dumper s fileName receiving") auto
qed

text \<open>The theorem on a table that tracks \<open>/t/db_ora_1.trc\<close>: a second event for that file
  with the Miner waiting, and with the Miner busy; and a first event for another file.\<close>

theorem wake_channel_unbuffered_blocking_witness:
  "checkFile \<lparr>Join = (\<lambda>d n. d @ ''/'' @ n), Dir = (\<lambda>p. ''/t''),
              MarshalIndent = (\<lambda>r. Inr ''{}''), Unmarshal = (\<lambda>s. Inl (ErrJSON ''unused''))\<rparr>
      \<lparr>files = [''/t/db_ora_1.trc'' \<mapsto> []], denied = (\<lambda>op. Map.empty)\<rparr>
      \<lparr>R = Some Map.empty\<rparr> ''db'' 1
      \<lparr>traces = [''/t/db_ora_1.trc'' \<mapsto> makeChan 0]\<rparr> ''/t/db_ora_1.trc'' True
     = (Woke, \<lparr>traces = [''/t/db_ora_1.trc'' \<mapsto> makeChan 0]\<rparr>)
 \<and> checkFile \<lparr>Join = (\<lambda>d n. d @ ''/'' @ n), Dir = (\<lambda>p. ''/t''),
              MarshalIndent = (\<lambda>r. Inr ''{}''), Unmarshal = (\<lambda>s. Inl (ErrJSON ''unused''))\<rparr>
      \<lparr>files = [''/t/db_ora_1.trc'' \<mapsto> []], denied = (\<lambda>op. Map.empty)\<rparr>
      \<lparr>R = Some Map.empty\<rparr> ''db'' 1
      \<lparr>traces = [''/t/db_ora_1.trc'' \<mapsto> makeChan 0]\<rparr> ''/t/db_ora_1.trc'' False
     = (WatchdogBlocks, \<lparr>traces = [''/t/db_ora_1.trc'' \<mapsto> makeChan 0]\<rparr>)
 \<and> addOrGetTrace \<lparr>traces = [''/t/db_ora_1.trc'' \<mapsto> makeChan 0]\<rparr> ''/t/db_ora_2.trc''
     = (True, makeChan 0,
        \<lparr>traces = [''/t/db_ora_1.trc'' \<mapsto> makeChan 0, ''/t/db_ora_2.trc'' \<mapsto> makeChan 0]\<rparr>)
 \<and> cap (makeChan 0) = 0"
proof -
  let ?L = "\<lparr>Join = (\<lambda>d n. d @ ''/'' @ n), Dir = (\<lambda>p. ''/t''),
              MarshalIndent = (\<lambda>r. Inr ''{}''), Unmarshal = (\<lambda>s. Inl (ErrJSON ''unused''))\<rparr>"
  let ?os = "\<lparr>files = [''/t/db_ora_1.trc'' \<mapsto> []], denied = (\<lambda>op. Map.empty)\<rparr>"
  let ?s = "\<lparr>traces = [''/t/db_ora_1.trc'' \<mapsto> makeChan 0]\<rparr>"
  have inv: "\<forall>key ch. traces ?s key = Some ch \<longrightarrow> cap ch = 0 \<and> queued ch = 0"
    by (simp add: makeChan_def)
  have e: "Ext ''/t/db_ora_1.trc'' = ''.trc''" by code_simp
  have b: "HasPrefix (Base ''/t/db_ora_1.trc'') (''db'' @ ''_ora_'')" by code_simp
  have t: "traces ?s ''/t/db_ora_1.trc'' = Some (makeChan 0)"
    and o: "\<not> closed (makeChan 0)" and n: "traces ?s ''/t/db_ora_2.trc'' = None"
    by (simp_all add: makeChan_def)
  note w1 = wake_channel_unbuffered_blocking
              [OF inv, of "''/t/db_ora_1.trc''" "''db''" ?L ?os "\<lparr>R = Some Map.empty\<rparr>" 1 True]
  note w2 = wake_channel_unbuffered_blocking
              [OF inv, of "''/t/db_ora_1.trc''" "''db''" ?L ?os "\<lparr>R = Some Map.empty\<rparr>" 1 False]
  note w3 = wake_channel_unbuffered_blocking
              [OF inv, of "''/t/db_ora_2.trc''" "''db''" ?L ?os "\<lparr>R = Some Map.empty\<rparr>" 1 False]
  from w1 e b t o
  have 1: "checkFile ?L ?os \<lparr>R = Some Map.empty\<rparr> ''db'' 1 ?s ''/t/db_ora_1.trc'' True = (Woke, ?s)"
    by simp
  from w2 e b t o
  have 2: "checkFile ?L ?os \<lparr>R = Some Map.empty\<rparr> ''db'' 1 ?s ''/t/db_ora_1.trc'' False
             = (WatchdogBlocks, ?s)"
    by simp
  from w3 n
  have 3: "addOrGetTrace ?s ''/t/db_ora_2.trc''
             = (True, makeChan 0, ?s\<lparr>traces := (traces ?s)(''/t/db_ora_2.trc'' \<mapsto> makeChan 0)\<rparr>)
           \<and> cap (makeChan 0) = 0"
    by blast
  from 1 2 3 show ?thesis by simp
qed

section \<open>The roster: save and reload\<close>



end
